theory Spec2Isabelle
  imports Main
begin

section \<open>Exceptions\<close>

text \<open>
  The exceptions that the code below raises or catches. A function that can raise returns
  \<open>error + 'a\<close>, with \<open>Inl\<close> for the exception; \<open>OtherError\<close> is any exception that no handler
  of the code names.
\<close>

datatype error = IndexError | TypeError | NotImplementedError | AssertionError
  | PropertyError | KeyError | NotConstExprError | OtherError

section \<open>Abstract domains\<close>

text \<open>
  The operations of \<^verbatim>\<open>lalcheck/ai/domain_ops/sparse_array_ops.py\<close> are closures over a
  sparse-array domain object: they call \<^verbatim>\<open>domain.index_dom\<close>, \<^verbatim>\<open>domain.elem_dom\<close>,
  \<^verbatim>\<open>domain.join\<close>, \<^verbatim>\<open>domain.meet\<close>, \<^verbatim>\<open>domain.normalized\<close>, \<^verbatim>\<open>domain.is_empty\<close> and
  \<^verbatim>\<open>domain.empty\<close>. The module that implements the domains (\<^verbatim>\<open>lalcheck.ai.domains\<close>) is
  not among the sources, so a domain is a record of its operations and every operation of
  the library takes the domain as its first argument.

  \<^verbatim>\<open>size\<close> returns a count; \<open>None\<close> stands for an infinite one.
\<close>

record 'a abstract_domain =
  bottom :: 'a
  top_elem :: 'a
  is_empty :: "'a \<Rightarrow> bool"
  le :: "'a \<Rightarrow> 'a \<Rightarrow> bool"
  join :: "'a \<Rightarrow> 'a \<Rightarrow> 'a"
  meet :: "'a \<Rightarrow> 'a \<Rightarrow> 'a"
  size_of :: "'a \<Rightarrow> nat option"
  has_split :: bool
  split :: "'a \<Rightarrow> 'a \<Rightarrow> 'a list"

text \<open>
  A sparse array is a list of (index slice, element) pairs. The fields \<open>array_join\<close>,
  \<open>array_meet\<close>, \<open>array_is_empty\<close> and \<open>empty_array\<close> are \<^verbatim>\<open>domain.join\<close>, \<^verbatim>\<open>domain.meet\<close>,
  \<^verbatim>\<open>domain.is_empty\<close> and \<^verbatim>\<open>domain.empty\<close> of the sparse-array domain object.
\<close>

type_synonym ('i, 'e) array = "('i \<times> 'e) list"

record ('i, 'e) sparse_array =
  index_dom :: "'i abstract_domain"
  elem_dom :: "'e abstract_domain"
  array_join :: "('i, 'e) array \<Rightarrow> ('i, 'e) array \<Rightarrow> ('i, 'e) array"
  array_meet :: "('i, 'e) array \<Rightarrow> ('i, 'e) array \<Rightarrow> ('i, 'e) array"
  normalized :: "('i, 'e) array \<Rightarrow> ('i, 'e) array"
  array_is_empty :: "('i, 'e) array \<Rightarrow> bool"
  empty_array :: "('i, 'e) array"

section \<open>Sparse-array operations\<close>

text \<open>
  \<^verbatim>\<open>partition(iterable, predicate)\<close> comes from \<^verbatim>\<open>lalcheck.ai.utils\<close>. At its only call
  site the result is bound as \<^verbatim>\<open>not_relevant, relevant\<close> with the predicate "the slice does
  not meet the indices": the elements that satisfy the predicate come first.
\<close>

fun partition_by :: "'a list \<Rightarrow> ('a \<Rightarrow> bool) \<Rightarrow> 'a list \<times> 'a list" where
  "partition_by [] p = ([], [])"
| "partition_by (x # xs) p =
     (case partition_by xs p of
        (yes, no) \<Rightarrow> if p x then (x # yes, no) else (yes, x # no))"

text \<open>\<^verbatim>\<open>get(domain)\<close>: the join of the elements whose slice meets the index.\<close>

definition get :: "('i, 'e) sparse_array \<Rightarrow> ('i, 'e) array \<Rightarrow> 'i \<Rightarrow> 'e" where
  "get D array index =
     (let relevant =
        [snd elem. elem \<leftarrow> array,
           \<not> is_empty (index_dom D) (meet (index_dom D) index (fst elem))]
      in foldl (join (elem_dom D)) (bottom (elem_dom D)) relevant)"

text \<open>\<^verbatim>\<open>updated(domain)\<close>, with its two implementations.\<close>

definition updated_do_precise ::
  "('i, 'e) sparse_array \<Rightarrow> ('i, 'e) array \<Rightarrow> 'e \<Rightarrow> 'i \<Rightarrow> ('i, 'e) array" where
  "updated_do_precise D array val indices =
     (if size_of (index_dom D) indices = Some 1 then
        (case partition_by array
                (\<lambda>elem. is_empty (index_dom D) (meet (index_dom D) indices (fst elem))) of
           (not_relevant, relevant) \<Rightarrow>
             (let updated_relevant =
                [(piece, snd elem). elem \<leftarrow> relevant,
                   piece \<leftarrow> split (index_dom D) (fst elem) indices,
                   \<not> is_empty (index_dom D) piece]
              in normalized D (not_relevant @ updated_relevant @ [(indices, val)])))
      else array_join D array [(indices, val)])"

definition updated_do_imprecise ::
  "('i, 'e) sparse_array \<Rightarrow> ('i, 'e) array \<Rightarrow> 'e \<Rightarrow> 'i \<Rightarrow> ('i, 'e) array" where
  "updated_do_imprecise D array val indices = array_join D array [(indices, val)]"

definition updated ::
  "('i, 'e) sparse_array \<Rightarrow> ('i, 'e) array \<Rightarrow> 'e \<Rightarrow> 'i \<Rightarrow> ('i, 'e) array" where
  "updated D =
     (if has_split (index_dom D) then updated_do_precise D else updated_do_imprecise D)"

text \<open>
  \<^verbatim>\<open>array_string(domain)\<close> takes a flattened list of pairs \<open>i\<^sub>1, e\<^sub>1, \<dots>, i\<^sub>n, e\<^sub>n\<close>. Python pairs
  \<^verbatim>\<open>args[i]\<close> with \<^verbatim>\<open>args[i+1]\<close> for every even \<open>i\<close> and raises \<^verbatim>\<open>IndexError\<close> on a list of
  odd length. In the typed model an argument is tagged as an index or an element, and a
  pair that is not (index, element) is a \<open>TypeError\<close>. \<^verbatim>\<open>reduce\<close> without an initial value
  starts from the first array and raises \<^verbatim>\<open>TypeError\<close> on an empty sequence.
\<close>

datatype ('i, 'e) arg = Index 'i | Element 'e

fun pair_args :: "('i, 'e) arg list \<Rightarrow> error + ('i, 'e) array list" where
  "pair_args [] = Inr []"
| "pair_args [x] = Inl IndexError"
| "pair_args (Index i # Element e # rest) =
     (case pair_args rest of Inl err \<Rightarrow> Inl err | Inr arrs \<Rightarrow> Inr ([(i, e)] # arrs))"
| "pair_args (x # y # rest) = Inl TypeError"

fun reduce1 :: "('a \<Rightarrow> 'a \<Rightarrow> 'a) \<Rightarrow> 'a list \<Rightarrow> error + 'a" where
  "reduce1 f [] = Inl TypeError"
| "reduce1 f (x # xs) = Inr (foldl f x xs)"

definition array_string ::
  "('i, 'e) sparse_array \<Rightarrow> ('i, 'e) arg list \<Rightarrow> error + ('i, 'e) array" where
  "array_string D args =
     (if length args = 0 then Inr (empty_array D)
      else
        (case pair_args args of
           Inl err \<Rightarrow> Inl err
         | Inr arrs \<Rightarrow>
             (case reduce1 (array_join D) arrs of
                Inl err \<Rightarrow> Inl err
              | Inr joined \<Rightarrow> Inr (normalized D joined))))"

text \<open>
  \<^verbatim>\<open>inv_get(domain)\<close>. A backward operation returns \<^verbatim>\<open>None\<close> when there is no solution:
  the result is an option.
\<close>

definition inv_get_do_precise ::
  "('i, 'e) sparse_array \<Rightarrow> 'e \<Rightarrow> ('i, 'e) array \<Rightarrow> 'i \<Rightarrow> (('i, 'e) array \<times> 'i) option"
  where
  "inv_get_do_precise D res array_constr index_constr =
     (let biggest_array =
            [(piece, top_elem (elem_dom D)).
               piece \<leftarrow> split (index_dom D) (top_elem (index_dom D)) index_constr]
            @ [(index_constr, res)];
          array_meet_v = array_meet D biggest_array array_constr
      in
        if array_is_empty D array_meet_v then None
        else
          (let indices =
                 foldl (join (index_dom D)) (bottom (index_dom D))
                   [fst iv. iv \<leftarrow> array_meet_v,
                      le (index_dom D) (fst iv) index_constr \<and> le (elem_dom D) (snd iv) res];
               indices_size = size_of (index_dom D) indices
           in
             if indices_size = Some 0 then None
             else if indices_size = Some 1 then
               Some (updated D array_constr
                       (meet (elem_dom D) res (get D array_constr indices)) indices,
                     indices)
             else Some (array_constr, indices)))"

definition inv_get_do_imprecise ::
  "('i, 'e) sparse_array \<Rightarrow> 'e \<Rightarrow> ('i, 'e) array \<Rightarrow> 'i \<Rightarrow> (('i, 'e) array \<times> 'i) option"
  where
  "inv_get_do_imprecise D res array_constr index_constr =
     (if array_is_empty D array_constr \<or> is_empty (index_dom D) index_constr then None
      else Some (array_constr, index_constr))"

definition inv_get ::
  "('i, 'e) sparse_array \<Rightarrow> 'e \<Rightarrow> ('i, 'e) array \<Rightarrow> 'i \<Rightarrow> (('i, 'e) array \<times> 'i) option"
  where
  "inv_get D =
     (if has_split (index_dom D) then inv_get_do_precise D else inv_get_do_imprecise D)"

text \<open>
  \<^verbatim>\<open>inv_index_range(domain)\<close> and \<^verbatim>\<open>inv_array_string(domain)\<close>: two more backward operations
  of the same module. The second one is \<^verbatim>\<open>def do(_, *args): return args\<close>.
\<close>

definition inv_index_range ::
  "('i, 'e) sparse_array \<Rightarrow> 'i \<Rightarrow> ('i, 'e) array \<Rightarrow> ('i, 'e) array option" where
  "inv_index_range D res array_constr =
     (if is_empty (index_dom D) res \<or> array_is_empty D array_constr then None
      else Some
        [(meet (index_dom D) res (fst ie), snd ie). ie \<leftarrow> array_constr,
           \<not> is_empty (index_dom D) (meet (index_dom D) res (fst ie))])"

definition inv_array_string ::
  "('i, 'e) sparse_array \<Rightarrow> ('i, 'e) array \<Rightarrow> ('i, 'e) arg list \<Rightarrow> ('i, 'e) arg list option"
  where
  "inv_array_string D res args = Some args"

section \<open>Signatures\<close>

text \<open>
  \<^verbatim>\<open>class Signature\<close> of \<^verbatim>\<open>lalcheck/ai/interpretations.py\<close>: the name, the input domains, the
  output domain (or \<^verbatim>\<open>None\<close>), the indices of the out parameters (a tuple, or \<^verbatim>\<open>None\<close> as in the
  class's own example) and the user data (\<^verbatim>\<open>None\<close> by default). \<^verbatim>\<open>substituted\<close> builds its
  result with \<^verbatim>\<open>Signature(name, inputs, output, out_param_indices)\<close>: the fifth argument is not
  passed, so the user data of the result is the default.
\<close>

record ('n, 'd, 'u) signature =
  name :: 'n
  input_domains :: "'d list"
  output_domain :: "'d option"
  out_param_indices :: "nat list option"
  userdata :: "'u option"

definition contains :: "('n, 'd, 'u) signature \<Rightarrow> 'd \<Rightarrow> bool" where
  "contains s domain = (domain \<in> set (input_domains s) \<or> Some domain = output_domain s)"

definition substituted :: "('n, 'd, 'u) signature \<Rightarrow> 'd \<Rightarrow> 'd \<Rightarrow> ('n, 'd, 'u) signature" where
  "substituted s domain by_dom =
     \<lparr> name = name s,
       input_domains = map (\<lambda>dom. if dom = domain then by_dom else dom) (input_domains s),
       output_domain = (if Some domain = output_domain s then Some by_dom else output_domain s),
       out_param_indices = out_param_indices s,
       userdata = None \<rparr>"

definition signature_eq :: "('n, 'd, 'u) signature \<Rightarrow> ('n, 'd, 'u) signature \<Rightarrow> bool" where
  "signature_eq s other =
     (name s = name other \<and>
      input_domains s = input_domains other \<and>
      output_domain s = output_domain other \<and>
      out_param_indices s = out_param_indices other \<and>
      userdata s = userdata other)"

section \<open>The definition provider of the random-access memory\<close>

text \<open>
  \<^verbatim>\<open>default_ram_interpreter\<close> of \<^verbatim>\<open>lalcheck/ai/interpretations.py\<close>. The operator names come from
  \<^verbatim>\<open>lalcheck.ai.constants.ops\<close> and the implementations from \<^verbatim>\<open>lalcheck.ai.domain_ops.ram_ops\<close>,
  neither among the sources: the names \<^verbatim>\<open>GetName(i)\<close>, \<^verbatim>\<open>UpdatedName(i)\<close>, \<^verbatim>\<open>OffsetName(i)\<close>,
  \<^verbatim>\<open>EQ\<close>, \<^verbatim>\<open>NEQ\<close> and \<^verbatim>\<open>COPY_OFFSET\<close> are constructors, the implementations of \<^verbatim>\<open>ram_ops\<close> are
  fields of a record, and a domain is named by an identifier. An implementation takes its
  arguments as a list and either returns a value or raises. The provider returns \<^verbatim>\<open>None\<close>
  for a signature it does not know, and \<^verbatim>\<open>sig.input_domains[k]\<close> raises \<^verbatim>\<open>IndexError\<close> on a
  tuple that is too short. \<open>signer\<close> and \<open>not_implemented\<close> are \<^verbatim>\<open>_signer\<close> and \<^verbatim>\<open>_not_implemented\<close>.
\<close>

datatype op_name = GetName nat | UpdatedName nat | OffsetName nat
  | EQ | NEQ | COPY_OFFSET | OtherOp string

datatype domain_id = RandomAccessMemory | Boolean | OtherDomain nat

type_synonym 'v impl = "'v list \<Rightarrow> error + 'v"

record 'v ram_ops =
  getter :: "nat \<Rightarrow> domain_id option \<Rightarrow> 'v impl"
  inv_getter :: "nat \<Rightarrow> domain_id option \<Rightarrow> 'v impl"
  updater :: "nat \<Rightarrow> domain_id \<Rightarrow> 'v impl"
  inv_updater :: "nat \<Rightarrow> domain_id \<Rightarrow> 'v impl"
  offseter :: "nat \<Rightarrow> 'v impl"
  inv_offseter :: "nat \<Rightarrow> 'v impl"
  copy_offset :: "'v impl"
  inv_copy_offset :: "'v impl"

definition signer ::
  "domain_id list \<Rightarrow> domain_id option \<Rightarrow> op_name \<Rightarrow> (op_name, domain_id, 'u) signature" where
  "signer input_doms output_dom nm =
     \<lparr> name = nm, input_domains = input_doms, output_domain = output_dom,
       out_param_indices = Some [], userdata = None \<rparr>"

text \<open>\<^verbatim>\<open>def _not_implemented(*_): raise NotImplementedError\<close>\<close>

definition not_implemented :: "'v impl" where
  "not_implemented args = Inl NotImplementedError"

definition mem_dom :: domain_id where
  "mem_dom = RandomAccessMemory"

definition bin_rel_signer :: "op_name \<Rightarrow> (op_name, domain_id, 'u) signature" where
  "bin_rel_signer = signer [mem_dom, mem_dom] (Some Boolean)"

definition cpy_offset_sig :: "(op_name, domain_id, 'u) signature" where
  "cpy_offset_sig = signer [mem_dom, mem_dom] (Some mem_dom) COPY_OFFSET"

fun item :: "'a list \<Rightarrow> nat \<Rightarrow> error + 'a" where
  "item [] n = Inl IndexError"
| "item (x # xs) 0 = Inr x"
| "item (x # xs) (Suc n) = item xs n"

definition ram_provider ::
  "'v ram_ops \<Rightarrow> (op_name, domain_id, 'u) signature \<Rightarrow> error + ('v impl \<times> 'v impl) option" where
  "ram_provider R sig =
     (case name sig of
        GetName index \<Rightarrow>
          (case item (input_domains sig) 0 of
             Inl err \<Rightarrow> Inl err
           | Inr d0 \<Rightarrow>
               if d0 = mem_dom
               then Inr (Some (getter R index (output_domain sig),
                               inv_getter R index (output_domain sig)))
               else Inr None)
      | UpdatedName idx \<Rightarrow>
          (case item (input_domains sig) 0 of
             Inl err \<Rightarrow> Inl err
           | Inr d0 \<Rightarrow>
               if d0 = mem_dom
               then (case item (input_domains sig) 1 of
                       Inl err \<Rightarrow> Inl err
                     | Inr d1 \<Rightarrow> Inr (Some (updater R idx d1, inv_updater R idx d1)))
               else Inr None)
      | OffsetName index \<Rightarrow>
          (case item (input_domains sig) 0 of
             Inl err \<Rightarrow> Inl err
           | Inr d0 \<Rightarrow>
               if d0 = mem_dom
               then Inr (Some (offseter R index, inv_offseter R index))
               else Inr None)
      | _ \<Rightarrow>
          if signature_eq sig cpy_offset_sig
          then Inr (Some (copy_offset R, inv_copy_offset R))
          else if signature_eq sig (bin_rel_signer EQ) \<or> signature_eq sig (bin_rel_signer NEQ)
          then Inr (Some (not_implemented, not_implemented))
          else Inr None)"

section \<open>IR generation: declarations and statements\<close>

text \<open>
  \<^verbatim>\<open>transform_decls\<close>, \<^verbatim>\<open>transform_stmts\<close>, \<^verbatim>\<open>print_warning\<close> and the expression that builds the
  program, at the end of \<^verbatim>\<open>gen_ir\<close> in
  \<^verbatim>\<open>lalcheck/ai/irs/basic/frontends/lal/codegen.py\<close>. The two loops are the same code:
  \<^verbatim>\<open>try: res.extend(transform(node)) except (lal.PropertyError, NotImplementedError, KeyError,
  NotConstExprError) as e: print_warning(node.text, e)\<close>. The transformations of one
  specification, declaration or statement walk the libadalang tree and are parameters
  here: each takes the state of the generator (the variables declared so far, the
  counters) and returns statements or raises, with the state as it left it. The warnings
  printed are kept in a list.
\<close>

datatype warning = Warning string error

definition recoverable :: "error \<Rightarrow> bool" where
  "recoverable e = (e = PropertyError \<or> e = NotImplementedError \<or> e = KeyError \<or> e = NotConstExprError)"

definition print_warning :: "string \<Rightarrow> error \<Rightarrow> warning list \<Rightarrow> warning list" where
  "print_warning subject exception out = out @ [Warning subject exception]"

type_synonym ('n, 's, 'st) transformer = "'n \<Rightarrow> 'st \<Rightarrow> (error + 's list) \<times> 'st"

fun transform_each ::
  "('n, 's, 'st) transformer \<Rightarrow> ('n \<Rightarrow> string) \<Rightarrow> 'n list \<Rightarrow> 's list \<Rightarrow> 'st \<times> warning list
     \<Rightarrow> (error + 's list) \<times> ('st \<times> warning list)" where
  "transform_each transform text [] res (st, out) = (Inr res, (st, out))"
| "transform_each transform text (node # nodes) res (st, out) =
     (case transform node st of
        (Inr stmts, st') \<Rightarrow> transform_each transform text nodes (res @ stmts) (st', out)
      | (Inl e, st') \<Rightarrow>
          if recoverable e
          then transform_each transform text nodes res (st', print_warning (text node) e out)
          else (Inl e, (st', out)))"

definition transform_decls ::
  "('d, 's, 'st) transformer \<Rightarrow> ('d \<Rightarrow> string) \<Rightarrow> 'd list \<Rightarrow> 'st \<times> warning list
     \<Rightarrow> (error + 's list) \<times> ('st \<times> warning list)" where
  "transform_decls transform_decl text decls = transform_each transform_decl text decls []"

definition transform_stmts ::
  "('t, 's, 'st) transformer \<Rightarrow> ('t \<Rightarrow> string) \<Rightarrow> 't list \<Rightarrow> 'st \<times> warning list
     \<Rightarrow> (error + 's list) \<times> ('st \<times> warning list)" where
  "transform_stmts transform_stmt text stmts = transform_each transform_stmt text stmts []"

datatype 's program = Program "'s list"

record ('p, 'd, 't, 's, 'st) frontend =
  transform_spec :: "'p \<Rightarrow> 'st \<Rightarrow> (error + 's list) \<times> 'st"
  transform_decl :: "('d, 's, 'st) transformer"
  transform_stmt :: "('t, 's, 'st) transformer"
  decl_text :: "'d \<Rightarrow> string"
  stmt_text :: "'t \<Rightarrow> string"
  func_end_label :: 's

definition gen_ir_program ::
  "('p, 'd, 't, 's, 'st) frontend \<Rightarrow> 'p \<Rightarrow> 'd list \<Rightarrow> 't list \<Rightarrow> 'st \<times> warning list
     \<Rightarrow> (error + 's program) \<times> ('st \<times> warning list)" where
  "gen_ir_program F spec decls stmts s =
     (case transform_spec F spec (fst s) of
        (Inl e, st1) \<Rightarrow> (Inl e, (st1, snd s))
      | (Inr spec_stmts, st1) \<Rightarrow>
          (case transform_decls (transform_decl F) (decl_text F) decls (st1, snd s) of
             (Inl e, s2) \<Rightarrow> (Inl e, s2)
           | (Inr decl_stmts, s2) \<Rightarrow>
               (case transform_stmts (transform_stmt F) (stmt_text F) stmts s2 of
                  (Inl e, s3) \<Rightarrow> (Inl e, s3)
                | (Inr body_stmts, s3) \<Rightarrow>
                    (Inr (Program (spec_stmts @ decl_stmts @ body_stmts @ [func_end_label F])),
                     s3))))"

section \<open>The universal-type rewrite\<close>

text \<open>
  \<^verbatim>\<open>class ConvertUniversalTypes\<close> of \<^verbatim>\<open>codegen.py\<close>: the visitor that removes the universal
  types from the type hints of the IR. The pass mutates the IR in place
  (\<^verbatim>\<open>expr.data = expr.data.copy(type_hint=expected_type)\<close>, \<^verbatim>\<open>funcall.args[i] = ...\<close>) and the
  generator may put one node object at several places of a tree, so the nodes live in a
  memory and an expression is the address of its node: a node that is reached twice is
  the same node, with the type hint that the first visit left.
\<close>

text \<open>
  Modelled from the spec: the IR tree (\<^verbatim>\<open>lalcheck.ai.irs.basic.tree\<close>) and the implicit
  visitor (\<^verbatim>\<open>lalcheck.ai.irs.basic.visitors\<close>) are not among the sources. A node is an
  identifier of a variable, a literal or a call with an optional \<^verbatim>\<open>param_types\<close>, each
  with its type hint; the arguments of a call are addresses. \<^verbatim>\<open>expr.visit(visitor, t)\<close>
  calls \<^verbatim>\<open>visit_ident\<close> or \<^verbatim>\<open>visit_funcall\<close> and does nothing on a literal. A variable is an
  object shared by its identifiers: the type hints of the variables are a store indexed
  by the variable. \<open>allocated\<close> counts the nodes: \<^verbatim>\<open>irt.Lit(...)\<close> builds a new node at the
  first free address. Of the statements, the two that the visitor defines a method for:
  the assignment and the assume, holding the addresses of their expressions.
\<close>

datatype ('t, 'v) node =
    Identifier nat 't
  | Lit 'v 't
  | FunCall string "nat list" 't "'t list option"

datatype stmt = AssignStmt nat nat | AssumeStmt nat

record ('t, 'v) memory =
  node_at :: "nat \<Rightarrow> ('t, 'v) node"
  allocated :: nat
  var_hint :: "nat \<Rightarrow> 't"

fun type_hint :: "('t, 'v) node \<Rightarrow> 't" where
  "type_hint (Identifier x h) = h"
| "type_hint (Lit v h) = h"
| "type_hint (FunCall f args h pts) = h"

fun with_type_hint :: "('t, 'v) node \<Rightarrow> 't \<Rightarrow> ('t, 'v) node" where
  "with_type_hint (Identifier x h) t = Identifier x t"
| "with_type_hint (Lit v h) t = Lit v t"
| "with_type_hint (FunCall f args h pts) t = FunCall f args t pts"

fun args_of :: "('t, 'v) node \<Rightarrow> nat list" where
  "args_of (FunCall f args h pts) = args"
| "args_of (Identifier x h) = []"
| "args_of (Lit v h) = []"

fun with_args :: "('t, 'v) node \<Rightarrow> nat list \<Rightarrow> ('t, 'v) node" where
  "with_args (FunCall f args h pts) args' = FunCall f args' h pts"
| "with_args (Identifier x h) args' = Identifier x h"
| "with_args (Lit v h) args' = Lit v h"

text \<open>
  \<^verbatim>\<open>expr.data.type_hint\<close> of the node at an address, the allocation of a new node, and the
  three assignments of the pass: to \<^verbatim>\<open>expr.data\<close>, to \<^verbatim>\<open>funcall.args\<close> and to
  \<^verbatim>\<open>funcall.args[i]\<close>.
\<close>

definition hint_at :: "('t, 'v) memory \<Rightarrow> nat \<Rightarrow> 't" where
  "hint_at M e = type_hint (node_at M e)"

definition new_node :: "('t, 'v) memory \<Rightarrow> ('t, 'v) node \<Rightarrow> nat \<times> ('t, 'v) memory" where
  "new_node M n =
     (allocated M, M \<lparr> node_at := (node_at M) (allocated M := n), allocated := Suc (allocated M) \<rparr>)"

definition set_hint :: "('t, 'v) memory \<Rightarrow> nat \<Rightarrow> 't \<Rightarrow> ('t, 'v) memory" where
  "set_hint M e t = M \<lparr> node_at := (node_at M) (e := with_type_hint (node_at M e) t) \<rparr>"

definition set_args :: "('t, 'v) memory \<Rightarrow> nat \<Rightarrow> nat list \<Rightarrow> ('t, 'v) memory" where
  "set_args M e args = M \<lparr> node_at := (node_at M) (e := with_args (node_at M e) args) \<rparr>"

definition set_arg :: "('t, 'v) memory \<Rightarrow> nat \<Rightarrow> nat \<Rightarrow> nat \<Rightarrow> ('t, 'v) memory" where
  "set_arg M e i r = set_args M e ((args_of (node_at M e)) [i := r])"

text \<open>
  The constant evaluator and the typer are parameters: \<^verbatim>\<open>evaluator.eval\<close> reads the
  expression in the memory and returns a value or raises, \<^verbatim>\<open>typer.get\<close> returns a type or
  fails with \<^verbatim>\<open>TransformationFailure\<close> (\<open>None\<close>). \<open>int_type\<close> and \<open>bool_type\<close> are
  \<^verbatim>\<open>evaluator.int\<close> and \<^verbatim>\<open>evaluator.bool\<close>.
\<close>

record ('t, 'v) evaluator =
  universal_int :: 't
  universal_real :: 't
  int_type :: 't
  bool_type :: 't
  eval :: "('t, 'v) memory \<Rightarrow> nat \<Rightarrow> error + 'v"

datatype kind = IntRange | OtherKind

type_synonym 't typer = "'t \<Rightarrow> kind option"

definition is_universal :: "('t, 'v) evaluator \<Rightarrow> 't \<Rightarrow> bool" where
  "is_universal EV t = (t = universal_int EV \<or> t = universal_real EV)"

definition has_universal_type :: "('t, 'v) evaluator \<Rightarrow> ('t, 'v) memory \<Rightarrow> nat \<Rightarrow> bool" where
  "has_universal_type EV M e = is_universal EV (hint_at M e)"

definition is_integer_type :: "'t typer \<Rightarrow> 't \<Rightarrow> bool" where
  "is_integer_type ty tpe = (case ty tpe of None \<Rightarrow> False | Some k \<Rightarrow> k = IntRange)"

definition is_compatible :: "('t, 'v) evaluator \<Rightarrow> 't typer \<Rightarrow> 't \<Rightarrow> 't \<Rightarrow> error + bool" where
  "is_compatible EV ty tpe universal_tpe =
     (if universal_tpe = universal_int EV then Inr (is_integer_type ty tpe)
      else Inl NotImplementedError)"

definition compatible_type :: "('t, 'v) evaluator \<Rightarrow> 't \<Rightarrow> error + 't" where
  "compatible_type EV universal_tpe =
     (if universal_tpe = universal_int EV then Inr (int_type EV)
      else Inl NotImplementedError)"

definition pick_type ::
  "('t, 'v) evaluator \<Rightarrow> 't typer \<Rightarrow> ('t, 'v) memory \<Rightarrow> 't list \<Rightarrow> 't \<Rightarrow> nat \<Rightarrow> error + 't" where
  "pick_type EV ty M not_universals expected_type arg =
     (if \<not> has_universal_type EV M arg then Inr (hint_at M arg)
      else
        (case (if length not_universals > 0
               then is_compatible EV ty (hd not_universals) (hint_at M arg)
               else Inr False) of
           Inl e \<Rightarrow> Inl e
         | Inr True \<Rightarrow> Inr (hd not_universals)
         | Inr False \<Rightarrow>
             (case is_compatible EV ty expected_type (hint_at M arg) of
                Inl e \<Rightarrow> Inl e
              | Inr True \<Rightarrow> Inr expected_type
              | Inr False \<Rightarrow> compatible_type EV (hint_at M arg))))"

definition visit_ident ::
  "('t, 'v) evaluator \<Rightarrow> nat \<Rightarrow> 't list \<Rightarrow> ('t, 'v) memory \<Rightarrow> ('t, 'v) memory" where
  "visit_ident EV x expected_type M =
     (if length expected_type = 1
      then (if is_universal EV (var_hint M x)
            then M \<lparr> var_hint := (var_hint M) (x := hd expected_type) \<rparr> else M)
      else M)"

text \<open>
  The three loops of \<^verbatim>\<open>visit_funcall\<close> over the arguments differ by the expected type of
  an argument: its parameter type (the \<^verbatim>\<open>zip\<close> with \<^verbatim>\<open>param_types\<close>), the type chosen from
  the siblings (the \<^verbatim>\<open>for i in range(len(funcall.args))\<close> loop, which reads
  \<^verbatim>\<open>funcall.args[i]\<close> and assigns it in place), or the argument's own type hint. The
  type hint of an argument is read when its turn comes.
\<close>

datatype 't choice = FromParams "'t list" | FromSiblings "'t list" 't | OwnType

definition next_arg ::
  "('t, 'v) evaluator \<Rightarrow> 't typer \<Rightarrow> 't choice \<Rightarrow> nat \<Rightarrow> nat \<Rightarrow> nat \<Rightarrow> ('t, 'v) memory
     \<Rightarrow> error + nat \<times> 't" where
  "next_arg EV ty choice funcall i a M =
     (case choice of
        FromParams param_types \<Rightarrow> Inr (a, param_types ! i)
      | OwnType \<Rightarrow> Inr (a, hint_at M a)
      | FromSiblings not_universals expected_type \<Rightarrow>
          (case item (args_of (node_at M funcall)) i of
             Inl err \<Rightarrow> Inl err
           | Inr arg \<Rightarrow>
               (case pick_type EV ty M not_universals expected_type arg of
                  Inl err \<Rightarrow> Inl err
                | Inr tpe \<Rightarrow> Inr (arg, tpe))))"

definition store_arg :: "'t choice \<Rightarrow> ('t, 'v) memory \<Rightarrow> nat \<Rightarrow> nat \<Rightarrow> nat \<Rightarrow> ('t, 'v) memory" where
  "store_arg choice M funcall i r =
     (case choice of FromSiblings not_universals expected_type \<Rightarrow> set_arg M funcall i r | _ \<Rightarrow> M)"

text \<open>
  \<^verbatim>\<open>try_convert_expr\<close>, the dispatch of \<^verbatim>\<open>expr.visit\<close> with \<^verbatim>\<open>visit_funcall\<close>, and the loop
  over the arguments of a call. The recursion follows the memory, which may hold a cycle:
  \<open>depth\<close> is the number of nested calls of \<^verbatim>\<open>try_convert_expr\<close> that the interpreter still
  allows, and the call that exceeds it raises (the \<^verbatim>\<open>RuntimeError\<close> of the recursion
  limit, which no handler names: \<open>OtherError\<close>).
\<close>

function try_convert_expr ::
    "('t, 'v) evaluator \<Rightarrow> 't typer \<Rightarrow> nat \<Rightarrow> nat \<Rightarrow> 't \<Rightarrow> ('t, 'v) memory
       \<Rightarrow> error + nat \<times> ('t, 'v) memory"
  and visit ::
    "('t, 'v) evaluator \<Rightarrow> 't typer \<Rightarrow> nat \<Rightarrow> nat \<Rightarrow> 't \<Rightarrow> ('t, 'v) memory
       \<Rightarrow> error + ('t, 'v) memory"
  and convert_args ::
    "('t, 'v) evaluator \<Rightarrow> 't typer \<Rightarrow> nat \<Rightarrow> 't choice \<Rightarrow> nat \<Rightarrow> nat \<Rightarrow> nat list
       \<Rightarrow> ('t, 'v) memory \<Rightarrow> error + nat list \<times> ('t, 'v) memory"
  where
  "try_convert_expr EV ty depth e expected_type M =
     (if depth = 0 then Inl OtherError
      else
        (case eval EV M e of
           Inr v \<Rightarrow> Inr (new_node M (Lit v expected_type))
         | Inl err \<Rightarrow>
             if err = NotConstExprError then
               (let M1 = (if has_universal_type EV M e then set_hint M e expected_type else M)
                in case visit EV ty (depth - 1) e (hint_at M1 e) M1 of
                     Inl err \<Rightarrow> Inl err
                   | Inr M2 \<Rightarrow> Inr (e, M2))
             else Inl err))"
| "visit EV ty depth e expected_type M =
     (case node_at M e of
        Identifier x h \<Rightarrow> Inr (visit_ident EV x [expected_type] M)
      | Lit v h \<Rightarrow> Inr M
      | FunCall f args h pts \<Rightarrow>
          if list_ex (has_universal_type EV M) args then
            (case pts of
               Some param_types \<Rightarrow>
                 if length param_types = length args then
                   (case convert_args EV ty depth (FromParams param_types) e 0 args M of
                      Inl err \<Rightarrow> Inl err
                    | Inr (args', M') \<Rightarrow> Inr (set_args M' e args'))
                 else Inl AssertionError
             | None \<Rightarrow>
                 (let not_universals =
                        [hint_at M arg. arg \<leftarrow> args, \<not> has_universal_type EV M arg]
                  in case convert_args EV ty depth (FromSiblings not_universals expected_type)
                            e 0 args M of
                       Inl err \<Rightarrow> Inl err
                     | Inr (args', M') \<Rightarrow> Inr M'))
          else
            (case convert_args EV ty depth OwnType e 0 args M of
               Inl err \<Rightarrow> Inl err
             | Inr (args', M') \<Rightarrow> Inr (set_args M' e args')))"
| "convert_args EV ty depth choice funcall i args M =
     (case args of
        [] \<Rightarrow> Inr ([], M)
      | a # rest \<Rightarrow>
          (case next_arg EV ty choice funcall i a M of
             Inl err \<Rightarrow> Inl err
           | Inr (arg, tpe) \<Rightarrow>
               (case try_convert_expr EV ty depth arg tpe M of
                  Inl err \<Rightarrow> Inl err
                | Inr (arg', M1) \<Rightarrow>
                    (case convert_args EV ty depth choice funcall (Suc i) rest
                            (store_arg choice M1 funcall i arg') of
                       Inl err \<Rightarrow> Inl err
                     | Inr (rest', M2) \<Rightarrow> Inr (arg' # rest', M2)))))"
  by pat_completeness auto

termination
  by (relation "measures [\<lambda>x. case x of
        Inl (EV, ty, depth, e, t, M) \<Rightarrow> 3 * depth
      | Inr (Inl (EV, ty, depth, e, t, M)) \<Rightarrow> 3 * depth + 2
      | Inr (Inr (EV, ty, depth, choice, funcall, i, args, M)) \<Rightarrow> 3 * depth + 1,
      \<lambda>x. case x of
        Inl (EV, ty, depth, e, t, M) \<Rightarrow> 0
      | Inr (Inl (EV, ty, depth, e, t, M)) \<Rightarrow> 0
      | Inr (Inr (EV, ty, depth, choice, funcall, i, args, M)) \<Rightarrow> length args]") auto

declare try_convert_expr.simps [simp del] visit.simps [simp del] convert_args.simps [simp del]

definition visit_assign ::
  "('t, 'v) evaluator \<Rightarrow> 't typer \<Rightarrow> nat \<Rightarrow> nat \<Rightarrow> nat \<Rightarrow> ('t, 'v) memory
     \<Rightarrow> error + stmt \<times> ('t, 'v) memory" where
  "visit_assign EV ty depth target e M =
     (case (if has_universal_type EV M target
            then (case compatible_type EV (hint_at M target) of
                    Inl err \<Rightarrow> Inl err
                  | Inr compatible \<Rightarrow> visit EV ty depth target compatible M)
            else Inr M) of
        Inl err \<Rightarrow> Inl err
      | Inr M1 \<Rightarrow>
          (case try_convert_expr EV ty depth e (hint_at M1 target) M1 of
             Inl err \<Rightarrow> Inl err
           | Inr (e', M2) \<Rightarrow> Inr (AssignStmt target e', M2)))"

definition visit_assume ::
  "('t, 'v) evaluator \<Rightarrow> 't typer \<Rightarrow> nat \<Rightarrow> nat \<Rightarrow> ('t, 'v) memory
     \<Rightarrow> error + stmt \<times> ('t, 'v) memory" where
  "visit_assume EV ty depth e M =
     (case try_convert_expr EV ty depth e (bool_type EV) M of
        Inl err \<Rightarrow> Inl err
      | Inr (e', M') \<Rightarrow> Inr (AssumeStmt e', M'))"


section \<open>An interval instance\<close>

text \<open>
  Modelled from the spec: the interval lattice of \<^verbatim>\<open>lalcheck.ai.domains\<close>, which is not
  among the sources ("either \<open>\<bottom>\<close> or a closed integer interval \<open>[lo, hi]\<close>", the join is the
  enclosing interval, the domain supports \<^verbatim>\<open>split\<close>, and \<^verbatim>\<open>split(x, y)\<close> is a finite cover of
  \<open>x \ y\<close>). \<open>None\<close> is \<open>\<bottom>\<close>. \<^verbatim>\<open>Intervals(lo, hi)\<close> is the lattice whose top is \<open>[lo, hi]\<close>.
  The instance serves to evaluate the operations above on concrete inputs.
\<close>

type_synonym interval = "(int \<times> int) option"

definition mk_interval :: "int \<Rightarrow> int \<Rightarrow> interval" where
  "mk_interval a b = (if a \<le> b then Some (a, b) else None)"

fun interval_le :: "interval \<Rightarrow> interval \<Rightarrow> bool" where
  "interval_le None y = True"
| "interval_le (Some x) None = False"
| "interval_le (Some (a, b)) (Some (c, d)) = (c \<le> a \<and> b \<le> d)"

fun interval_join :: "interval \<Rightarrow> interval \<Rightarrow> interval" where
  "interval_join None y = y"
| "interval_join (Some x) None = Some x"
| "interval_join (Some (a, b)) (Some (c, d)) = Some (min a c, max b d)"

fun interval_meet :: "interval \<Rightarrow> interval \<Rightarrow> interval" where
  "interval_meet (Some (a, b)) (Some (c, d)) = mk_interval (max a c) (min b d)"
| "interval_meet x y = None"

fun interval_size :: "interval \<Rightarrow> nat option" where
  "interval_size None = Some 0"
| "interval_size (Some (a, b)) = Some (nat (b - a + 1))"

fun interval_split :: "interval \<Rightarrow> interval \<Rightarrow> interval list" where
  "interval_split None y = []"
| "interval_split (Some x) None = [Some x]"
| "interval_split (Some (a, b)) (Some (c, d)) =
     [mk_interval a (min b (c - 1)), mk_interval (max a (d + 1)) b]"

definition Intervals :: "int \<Rightarrow> int \<Rightarrow> interval abstract_domain" where
  "Intervals lo hi =
     \<lparr> bottom = None, top_elem = Some (lo, hi), is_empty = (\<lambda>x. x = None),
       le = interval_le, join = interval_join, meet = interval_meet,
       size_of = interval_size, has_split = True, split = interval_split \<rparr>"

text \<open>
  Modelled from the spec: a sparse-array domain over interval slices ("a finite ordered
  list of (indexSlice, elem) pairs", "normalization merges adjacent entries with equal elem
  and discards empty slices", "a tuning bound \<^verbatim>\<open>max_elems\<close> caps the number of slices; on
  overflow, adjacent entries are collapsed by joining their elem components").

  The spec does not say which adjacent entries are collapsed first: the model collapses
  from the front of the list until the bound holds. With \<^verbatim>\<open>max_elems = 1\<close> every order gives
  the same array. A bound of 0 stands for "no bound".

  The spec does not describe the join and the meet of two arrays either: here an array is
  read as a finite set of (slice, element) products, the join collects the entries of both
  arrays and the meet takes the non-empty pairwise meets, each followed by normalization.
\<close>

fun lower :: "interval \<Rightarrow> int" where
  "lower None = 0"
| "lower (Some (a, b)) = a"

fun merge_adjacent :: "(interval, 'e) array \<Rightarrow> (interval, 'e) array" where
  "merge_adjacent ((Some (a, b), e) # (Some (c, d), f) # rest) =
     (if e = f \<and> a \<le> c \<and> c \<le> b + 1
      then merge_adjacent ((Some (a, max b d), e) # rest)
      else (Some (a, b), e) # merge_adjacent ((Some (c, d), f) # rest))"
| "merge_adjacent (x # rest) = x # merge_adjacent rest"
| "merge_adjacent [] = []"

fun collapse_first ::
  "'i abstract_domain \<Rightarrow> 'e abstract_domain \<Rightarrow> ('i, 'e) array \<Rightarrow> ('i, 'e) array" where
  "collapse_first idx elt ((s, e) # (t, f) # rest) = (join idx s t, join elt e f) # rest"
| "collapse_first idx elt arr = arr"

definition enforce_max_elems ::
  "'i abstract_domain \<Rightarrow> 'e abstract_domain \<Rightarrow> nat \<Rightarrow> ('i, 'e) array \<Rightarrow> ('i, 'e) array" where
  "enforce_max_elems idx elt max_elems arr =
     (if max_elems = 0 then arr
      else (collapse_first idx elt ^^ (length arr - max_elems)) arr)"

definition interval_normalized ::
  "interval abstract_domain \<Rightarrow> 'e abstract_domain \<Rightarrow> nat \<Rightarrow> (interval, 'e) array
     \<Rightarrow> (interval, 'e) array" where
  "interval_normalized idx elt max_elems arr =
     enforce_max_elems idx elt max_elems
       (merge_adjacent (sort_key (\<lambda>ie. lower (fst ie)) [ie \<leftarrow> arr. fst ie \<noteq> None]))"

definition SparseArray ::
  "interval abstract_domain \<Rightarrow> 'e abstract_domain \<Rightarrow> nat \<Rightarrow> (interval, 'e) sparse_array" where
  "SparseArray idx elt max_elems =
     \<lparr> index_dom = idx, elem_dom = elt,
       array_join = (\<lambda>a b. interval_normalized idx elt max_elems (a @ b)),
       array_meet = (\<lambda>a b. interval_normalized idx elt max_elems
          [(meet idx (fst x) (fst y), meet elt (snd x) (snd y)). x \<leftarrow> a, y \<leftarrow> b,
             \<not> is_empty idx (meet idx (fst x) (fst y)) \<and>
             \<not> is_empty elt (meet elt (snd x) (snd y))]),
       normalized = interval_normalized idx elt max_elems,
       array_is_empty = (\<lambda>a. a = []),
       empty_array = [] \<rparr>"

text \<open>
  The array domain that \<^verbatim>\<open>default_array_interpreter\<close> builds has \<^verbatim>\<open>max_elems=15\<close>
  (\<^verbatim>\<open>lalcheck/ai/interpretations.py\<close>); \<open>D10\<close> is that domain over \<^verbatim>\<open>Intervals(-10, 10)\<close> for
  indices and elements, \<open>D10_unbounded\<close> the same without a bound and \<open>D10_single\<close> the one
  with \<^verbatim>\<open>max_elems=1\<close>.
\<close>

definition D10 :: "(interval, interval) sparse_array" where
  "D10 = SparseArray (Intervals (-10) 10) (Intervals (-10) 10) 15"

definition D10_unbounded :: "(interval, interval) sparse_array" where
  "D10_unbounded = SparseArray (Intervals (-10) 10) (Intervals (-10) 10) 0"

definition D10_single :: "(interval, interval) sparse_array" where
  "D10_single = SparseArray (Intervals (-10) 10) (Intervals (-10) 10) 1"

section \<open>The operations as the specification words them\<close>

text \<open>
  The definitions of this section follow the sentences of the specification, not the
  source: the theorems below compare them with the operations translated from the source.
\<close>

definition overlaps :: "('i, 'e) sparse_array \<Rightarrow> 'i \<Rightarrow> 'i \<times> 'e \<Rightarrow> bool" where
  "overlaps D idx entry = (\<not> is_empty (index_dom D) (meet (index_dom D) idx (fst entry)))"

definition split_around :: "('i, 'e) sparse_array \<Rightarrow> 'i \<Rightarrow> 'i \<times> 'e \<Rightarrow> ('i, 'e) array" where
  "split_around D idx entry =
     map (\<lambda>piece. (piece, snd entry))
       (filter (\<lambda>piece. \<not> is_empty (index_dom D) piece) (split (index_dom D) (fst entry) idx))"

text \<open>
  "If \<open>|idx| = 1\<close> and the domain supports split, split the overlapping slice around \<open>idx\<close>
  and insert \<open>(idx, val)\<close>; else \<open>join(arr, [(idx, val)])\<close>. Re-normalize."
\<close>

definition updated_spec ::
  "('i, 'e) sparse_array \<Rightarrow> ('i, 'e) array \<Rightarrow> 'e \<Rightarrow> 'i \<Rightarrow> ('i, 'e) array" where
  "updated_spec D arr val idx =
     (if size_of (index_dom D) idx = Some 1 \<and> has_split (index_dom D) then
        normalized D
          (filter (\<lambda>entry. \<not> overlaps D idx entry) arr
           @ concat (map (split_around D idx) (filter (overlaps D idx) arr))
           @ [(idx, val)])
      else array_join D arr [(idx, val)])"


text \<open>The flattened argument list \<open>i\<^sub>1, e\<^sub>1, \<dots>, i\<^sub>n, e\<^sub>n\<close> of a list of pairs, and the fold of
  \<open>updated\<close> over a list of pairs.\<close>

definition flatten :: "('i, 'e) array \<Rightarrow> ('i, 'e) arg list" where
  "flatten pairs = concat (map (\<lambda>ie. [Index (fst ie), Element (snd ie)]) pairs)"

definition fold_updated ::
  "('i, 'e) sparse_array \<Rightarrow> ('i, 'e) array \<Rightarrow> ('i, 'e) array \<Rightarrow> ('i, 'e) array" where
  "fold_updated D start pairs = foldl (\<lambda>arr ie. updated D arr (snd ie) (fst ie)) start pairs"

text \<open>The "biggest array" that has \<open>expected\<close> at \<open>idx\<close> and top elsewhere, and the index set
  derived from its meet with the array constraint.\<close>

definition biggest_array :: "('i, 'e) sparse_array \<Rightarrow> 'e \<Rightarrow> 'i \<Rightarrow> ('i, 'e) array" where
  "biggest_array D expected idx =
     map (\<lambda>piece. (piece, top_elem (elem_dom D)))
       (split (index_dom D) (top_elem (index_dom D)) idx) @ [(idx, expected)]"

definition matching_indices ::
  "('i, 'e) sparse_array \<Rightarrow> 'e \<Rightarrow> 'i \<Rightarrow> ('i, 'e) array \<Rightarrow> 'i" where
  "matching_indices D expected idx arr =
     foldl (join (index_dom D)) (bottom (index_dom D))
       (map fst (filter (\<lambda>iv. le (index_dom D) (fst iv) idx \<and>
                              le (elem_dom D) (snd iv) expected) arr))"

section \<open>What the operations need from the domains\<close>

text \<open>
  The algebraic properties of \<open>get\<close> and \<open>updated\<close> depend on the domains they are given.
  The predicates of this section state what the theorems below use: laws of the element
  domain (the lattice laws of the specification), the split of the index domain as a cover
  of \<open>x \ y\<close>, and the readings that the join and the normalization of the array domain keep.
\<close>

definition order_laws :: "'e abstract_domain \<Rightarrow> bool" where
  "order_laws E =
     ((\<forall>x. le E x x) \<and>
      (\<forall>x y z. le E x y \<and> le E y z \<longrightarrow> le E x z) \<and>
      (\<forall>x y. le E x (join E x y) \<and> le E y (join E x y)))"

definition reads_kept :: "('i, 'e) sparse_array \<Rightarrow> bool" where
  "reads_kept D =
     ((\<forall>arr j. le (elem_dom D) (get D arr j) (get D (normalized D arr) j)) \<and>
      (\<forall>a b j. le (elem_dom D) (get D b j) (get D (array_join D a b) j)))"

definition semilattice_laws :: "'e abstract_domain \<Rightarrow> bool" where
  "semilattice_laws E =
     ((\<forall>x y z. join E (join E x y) z = join E x (join E y z)) \<and>
      (\<forall>x y. join E x y = join E y x) \<and>
      (\<forall>x. join E x x = x) \<and>
      (\<forall>x. join E (bottom E) x = x))"

definition split_covers :: "'i abstract_domain \<Rightarrow> bool" where
  "split_covers I =
     ((\<forall>x y. is_empty I (meet I x y) = is_empty I (meet I y x)) \<and>
      (\<forall>x y j. is_empty I (meet I j y) \<longrightarrow>
         ((\<exists>p \<in> set (split I x y). \<not> is_empty I p \<and> \<not> is_empty I (meet I j p))
            = (\<not> is_empty I (meet I j x)))))"

definition reads_exact :: "('i, 'e) sparse_array \<Rightarrow> bool" where
  "reads_exact D =
     ((\<forall>arr j. get D (normalized D arr) j = get D arr j) \<and>
      (\<forall>a b j. get D (array_join D a b) j = join (elem_dom D) (get D a j) (get D b j)))"


text \<open>The elements that a reading at \<open>j\<close> joins.\<close>

definition readings :: "('i, 'e) sparse_array \<Rightarrow> 'i \<Rightarrow> ('i, 'e) array \<Rightarrow> 'e set" where
  "readings D j arr = snd ` {x \<in> set arr. overlaps D j x}"

section \<open>The other claims as the specification words them\<close>

text \<open>"\<open>substitute(D, D')\<close> produces a copy with \<open>D\<close> renamed to \<open>D'\<close>."\<close>

definition substituted_spec :: "('n, 'd, 'u) signature \<Rightarrow> 'd \<Rightarrow> 'd \<Rightarrow> ('n, 'd, 'u) signature" where
  "substituted_spec s domain by_dom =
     s \<lparr> input_domains := map (\<lambda>dom. if dom = domain then by_dom else dom) (input_domains s),
         output_domain := (if output_domain s = Some domain then Some by_dom else output_domain s) \<rparr>"

text \<open>
  A failure isolated to its declaration or statement: every node contributes its own
  statements, or nothing and a warning when its transformation fails.
\<close>

fun isolated ::
  "('n, 's, 'st) transformer \<Rightarrow> ('n \<Rightarrow> string) \<Rightarrow> 'n list \<Rightarrow> 'st \<Rightarrow> 's list \<times> warning list \<times> 'st" where
  "isolated transform text [] st = ([], [], st)"
| "isolated transform text (node # nodes) st =
     (case transform node st of
        (Inr stmts, st') \<Rightarrow>
          (case isolated transform text nodes st' of
             (rest, warnings, st'') \<Rightarrow> (stmts @ rest, warnings, st''))
      | (Inl e, st') \<Rightarrow>
          (case isolated transform text nodes st' of
             (rest, warnings, st'') \<Rightarrow> (rest, Warning (text node) e # warnings, st'')))"

definition fails_recoverably :: "('n, 's, 'st) transformer \<Rightarrow> 'n list \<Rightarrow> bool" where
  "fails_recoverably transform nodes =
     (\<forall>node \<in> set nodes. \<forall>st e. fst (transform node st) = Inl e \<longrightarrow> recoverable e)"










subsection \<open>What the rewrite keeps\<close>

text \<open>
  The invariants of the proofs below. From the address \<open>b\<close> on, the memory holds only the
  literals that the pass has built. A step of the pass changes a universal type hint into
  one that is not universal, replaces an argument by such a literal, or builds one: the
  memory evolves. A set of addresses is closed_under_args under arguments when it holds the
  arguments of its calls (and every address from \<open>b\<close> on); the pass does not touch the nodes
  outside such a set around the expression it converts.
\<close>

definition fresh_lit :: "('t, 'v) evaluator \<Rightarrow> ('t, 'v) node \<Rightarrow> bool" where
  "fresh_lit EV n = (case n of Lit v h \<Rightarrow> \<not> is_universal EV h | _ \<Rightarrow> False)"


definition hint_ev :: "('t, 'v) evaluator \<Rightarrow> 't \<Rightarrow> 't \<Rightarrow> bool" where
  "hint_ev EV h h' = (h' = h \<or> (is_universal EV h \<and> \<not> is_universal EV h'))"

definition node_ev ::
  "('t, 'v) evaluator \<Rightarrow> nat \<Rightarrow> nat \<Rightarrow> ('t, 'v) node \<Rightarrow> ('t, 'v) node \<Rightarrow> bool" where
  "node_ev EV b hi n n' =
     (n' = with_type_hint (with_args n (args_of n')) (type_hint n') \<and>
      hint_ev EV (type_hint n) (type_hint n') \<and>
      length (args_of n') = length (args_of n) \<and>
      (\<forall>i<length (args_of n). args_of n' ! i = args_of n ! i
          \<or> (b \<le> args_of n' ! i \<and> args_of n' ! i < hi)))"








section \<open>Inputs for the front end\<close>

text \<open>
  A front end whose declaration 1 and statement 1 cannot be transformed, and an evaluator
  for which the literals are the constant expressions, with a typer that knows \<open>Integer\<close>
  as an integer range. The memory \<open>M0\<close> holds \<open>f(n, n) < x\<close>, where one node \<open>n\<close> of universal
  integer type is both arguments of \<open>f\<close> (parameters of type \<open>Integer\<close> and \<open>Float\<close>), \<open>y < r\<close>
  with \<open>r\<close> of universal real type, and \<open>x - 3\<close>.
\<close>

definition F0 :: "(nat, nat, nat, string, nat) frontend" where
  "F0 = \<lparr> transform_spec = (\<lambda>p st. (Inr [''param''], st)),
          transform_decl = (\<lambda>d st. if d = 1 then (Inl NotImplementedError, st)
                                   else (Inr [''read''], Suc st)),
          transform_stmt = (\<lambda>t st. if t = 1 then (Inl KeyError, st) else (Inr [''assign''], st)),
          decl_text = (\<lambda>d. ''X : T''), stmt_text = (\<lambda>t. ''Y := Z''),
          func_end_label = ''end'' \<rparr>"

datatype ada_type = UniversalInt | UniversalReal | Integer | Bool | Float

definition EV0 :: "(ada_type, int) evaluator" where
  "EV0 = \<lparr> universal_int = UniversalInt, universal_real = UniversalReal,
           int_type = Integer, bool_type = Bool,
           eval = (\<lambda>M e. case node_at M e of Lit v h \<Rightarrow> Inr v | _ \<Rightarrow> Inl NotConstExprError) \<rparr>"

definition typer0 :: "ada_type typer" where
  "typer0 t = (if t = Integer then Some IntRange else if t = Float then Some OtherKind else None)"

definition M0 :: "(ada_type, int) memory" where
  "M0 = \<lparr> node_at = (\<lambda>x. Lit 0 Bool)
             (0 := Identifier 0 UniversalInt,
              1 := FunCall ''f'' [0, 0] Integer (Some [Integer, Float]),
              2 := Identifier 1 Integer,
              3 := FunCall ''<'' [1, 2] Bool None,
              4 := Identifier 2 Float,
              5 := Identifier 3 UniversalReal,
              6 := FunCall ''<'' [4, 5] Bool None,
              7 := Lit 3 UniversalInt,
              8 := FunCall ''-'' [2, 7] Integer None),
           allocated = 9, var_hint = (\<lambda>x. Integer) \<rparr>"

section \<open>Properties of the sparse-array operations\<close>

lemma partition_by_filter: "partition_by xs p = (filter p xs, filter (\<lambda>x. \<not> p x) xs)"
  by (induction xs) auto

lemma concat_map_if: "concat (map (\<lambda>x. if P x then [f x] else []) xs) = map f (filter P xs)"
  by (induction xs) auto

lemma concat_map_single: "concat (map (\<lambda>x. [f x]) xs) = map f xs"
  by (induction xs) auto

lemmas eval_defs = D10_def SparseArray_def Intervals_def interval_normalized_def
  enforce_max_elems_def mk_interval_def

subsection \<open>\<open>updated\<close>\<close>

lemma updated_unfolded: "updated D arr val idx = updated_spec D arr val idx"
  by (simp add: updated_def updated_do_precise_def updated_do_imprecise_def updated_spec_def
      partition_by_filter concat_map_if split_around_def[abs_def] overlaps_def[abs_def])

text \<open>
  Claim C2. For every array, value and index set: when the index set has size 1 and the
  index domain supports split, \<open>updated\<close> keeps the entries that do not overlap the index,
  splits every overlapping slice around it, appends the entry \<open>(idx, val)\<close> and normalizes;
  otherwise it is \<open>join(arr, [(idx, val)])\<close>.
\<close>

theorem updated_meets_spec: "updated D arr val idx = updated_spec D arr val idx"
  by (rule updated_unfolded)

text \<open>The point update of the specification's third scenario, through the theorem.\<close>

theorem updated_point_update_scenario:
  "updated D10 [(Some (-10, 10), Some (0, 0))] (Some (5, 5)) (Some (3, 3))
     = [(Some (-10, 2), Some (0, 0)), (Some (3, 3), Some (5, 5)), (Some (4, 10), Some (0, 0))]"
  using updated_meets_spec [of D10 "[(Some (-10, 10), Some (0, 0))]" "Some (5, 5)" "Some (3, 3)"]
  by (simp add: updated_spec_def overlaps_def split_around_def eval_defs)

subsection \<open>\<open>array_string\<close>\<close>

lemma pair_args_flatten: "pair_args (flatten pairs) = Inr (map (\<lambda>q. [q]) pairs)"
  by (induction pairs) (auto simp: flatten_def)

lemma foldl_join_is_updated:
  "\<forall>q\<in>set ps. \<not> (has_split (index_dom D) \<and> size_of (index_dom D) (fst q) = Some 1) \<Longrightarrow>
   foldl (array_join D) start (map (\<lambda>q. [q]) ps) = fold_updated D start ps"
  unfolding fold_updated_def
  by (induction ps arbitrary: start)
     (auto simp: updated_def updated_do_precise_def updated_do_imprecise_def)

text \<open>
  Claim C3 as stated fails: \<open>array_string\<close> joins the one-entry arrays, it does not fold
  \<open>updated\<close>. Writing twice at the index 3, the join keeps both values while the fold of
  \<open>updated\<close> from the empty array overwrites the first one.
\<close>

theorem array_string_overwrite_counterexample:
  "fold_updated D10 (empty_array D10) [(Some (3, 3), Some (0, 0)), (Some (3, 3), Some (5, 5))]
     = [(Some (3, 3), Some (5, 5))] \<and>
   array_string D10 (flatten [(Some (3, 3), Some (0, 0)), (Some (3, 3), Some (5, 5))])
     \<noteq> Inr (fold_updated D10 (empty_array D10)
              [(Some (3, 3), Some (0, 0)), (Some (3, 3), Some (5, 5))])"
  by (simp add: array_string_def flatten_def fold_updated_def updated_def
      updated_do_precise_def eval_defs)

text \<open>
  Claim C3, amended. On no pairs \<open>array_string\<close> returns the empty array; on the pairs
  \<open>p, ps\<close> it returns the normalized join of the one-entry arrays, in order, starting from
  \<open>[p]\<close>. That is the fold of \<open>updated\<close> over \<open>ps\<close> from \<open>[p]\<close>, normalized, whenever every
  update of the fold takes its join branch (the index domain has no split, or the index
  does not have size 1).
\<close>

theorem array_string_folds_join:
  "array_string D (flatten []) = Inr (empty_array D) \<and>
   array_string D (flatten (p # ps)) =
     Inr (normalized D (foldl (array_join D) [p] (map (\<lambda>q. [q]) ps))) \<and>
   ((\<forall>q\<in>set ps. \<not> (has_split (index_dom D) \<and> size_of (index_dom D) (fst q) = Some 1)) \<longrightarrow>
      array_string D (flatten (p # ps)) = Inr (normalized D (fold_updated D [p] ps)))"
proof -
  have "flatten (p # ps) \<noteq> []" by (simp add: flatten_def)
  then have *: "array_string D (flatten (p # ps)) =
      Inr (normalized D (foldl (array_join D) [p] (map (\<lambda>q. [q]) ps)))"
    by (simp add: array_string_def pair_args_flatten)
  have "array_string D (flatten []) = Inr (empty_array D)"
    by (simp add: array_string_def flatten_def)
  with * show ?thesis by (simp add: foldl_join_is_updated)
qed

theorem array_string_folds_join_witness:
  "array_string D10 (flatten [(Some (0, 1), Some (5, 5)), (Some (3, 4), Some (0, 0))])
     = Inr (normalized D10
         (fold_updated D10 [(Some (0, 1), Some (5, 5))] [(Some (3, 4), Some (0, 0))])) \<and>
   array_string D10 (flatten [(Some (0, 1), Some (5, 5)), (Some (3, 4), Some (0, 0))])
     = Inr [(Some (0, 1), Some (5, 5)), (Some (3, 4), Some (0, 0))]"
  using array_string_folds_join
    [of D10 "(Some (0, 1), Some (5, 5))" "[(Some (3, 4), Some (0, 0))]"]
  by (simp add: eval_defs fold_updated_def updated_def updated_do_precise_def)

subsection \<open>\<open>inv_get\<close>\<close>

text \<open>
  Claim C1 as stated fails in its last case: when the derived index set has a size other
  than 0 and 1, \<open>inv_get\<close> returns the array constraint unchanged, but with the derived index
  set, not with the index constraint it was given. Here the index constraint is
  \<open>[-10, 10]\<close> and the index returned is \<open>[-10, 5]\<close>, of size 16.
\<close>

theorem inv_get_index_counterexample:
  "inv_get D10 (Some (0, 0)) [(Some (-10, 5), Some (0, 0)), (Some (6, 10), Some (1, 1))]
       (Some (-10, 10))
     = Some ([(Some (-10, 5), Some (0, 0)), (Some (6, 10), Some (1, 1))], Some (-10, 5)) \<and>
   size_of (index_dom D10) (Some (-10, 5)) = Some 16"
  by (simp add: inv_get_def inv_get_do_precise_def eval_defs Let_def)

text \<open>
  Claim C1, amended. With a split-capable index domain, \<open>inv_get\<close> meets the biggest array
  with the array constraint and derives an index set from the meet (the join of the slices
  of the meet that lie within the index constraint and whose element lies within the
  expected value). It reports infeasible when the meet is empty or the derived index set
  has size 0; when the derived index set has size 1 it returns the array constraint refined
  by \<open>updated\<close> at that index (with the element met with the expected value) and the derived
  index set; in every other case it returns the array constraint unchanged and the derived
  index set.
\<close>

theorem inv_get_precise_cases:
  assumes "has_split (index_dom D)"
  shows "inv_get D expected arr idx =
     (let m = array_meet D (biggest_array D expected idx) arr;
          ind = matching_indices D expected idx m
      in if array_is_empty D m \<or> size_of (index_dom D) ind = Some 0 then None
         else if size_of (index_dom D) ind = Some 1
           then Some (updated D arr (meet (elem_dom D) expected (get D arr ind)) ind, ind)
         else Some (arr, ind))"
  using assms
  by (simp add: inv_get_def inv_get_do_precise_def biggest_array_def matching_indices_def
      Let_def concat_map_if concat_map_single)

theorem inv_get_precise_cases_witness:
  "has_split (index_dom D10) \<and>
   inv_get D10 (Some (0, 0))
       [(Some (-10, 3), Some (2, 2)), (Some (4, 4), Some (0, 1)), (Some (5, 10), Some (1, 1))]
       (Some (0, 10))
     = Some ([(Some (-10, 3), Some (2, 2)), (Some (4, 4), Some (0, 0)),
              (Some (5, 10), Some (1, 1))], Some (4, 4))"
proof -
  have h: "has_split (index_dom D10)" by (simp add: eval_defs)
  have "(let m = array_meet D10 (biggest_array D10 (Some (0, 0)) (Some (0, 10)))
                   [(Some (-10, 3), Some (2, 2)), (Some (4, 4), Some (0, 1)),
                    (Some (5, 10), Some (1, 1))];
             ind = matching_indices D10 (Some (0, 0)) (Some (0, 10)) m
         in if array_is_empty D10 m \<or> size_of (index_dom D10) ind = Some 0 then None
            else if size_of (index_dom D10) ind = Some 1
              then Some (updated D10
                     [(Some (-10, 3), Some (2, 2)), (Some (4, 4), Some (0, 1)),
                      (Some (5, 10), Some (1, 1))]
                     (meet (elem_dom D10) (Some (0, 0))
                        (get D10 [(Some (-10, 3), Some (2, 2)), (Some (4, 4), Some (0, 1)),
                                  (Some (5, 10), Some (1, 1))] ind)) ind, ind)
            else Some ([(Some (-10, 3), Some (2, 2)), (Some (4, 4), Some (0, 1)),
                        (Some (5, 10), Some (1, 1))], ind))
     = Some ([(Some (-10, 3), Some (2, 2)), (Some (4, 4), Some (0, 0)),
              (Some (5, 10), Some (1, 1))], Some (4, 4))"
    by (simp add: biggest_array_def matching_indices_def updated_def updated_do_precise_def
        get_def eval_defs Let_def)
  with inv_get_precise_cases [OF h] h show ?thesis by (simp only:)
qed

subsection \<open>\<open>inv_array_string\<close>\<close>

text \<open>
  Claim C10. The backward operation of \<open>array_string\<close> returns the argument constraints
  unchanged for every expected result and every tuple of constraints: it never reports
  infeasibility (\<open>None\<close>), whatever is empty.
\<close>

theorem inv_array_string_unchanged: "inv_array_string D res args = Some args"
  by (simp add: inv_array_string_def)

text \<open>
  On an empty expected result and empty constraints, where \<open>inv_index_range\<close> of the same
  module reports that there is no solution.
\<close>

theorem inv_array_string_on_empty:
  "inv_array_string D10 [] [Index None, Element None] = Some [Index None, Element None] \<and>
   inv_index_range D10 None [] = None"
  using inv_array_string_unchanged [of D10 "[]" "[Index None, Element None]"]
  by (simp add: inv_index_range_def eval_defs)

subsection \<open>\<open>get\<close> after \<open>updated\<close>\<close>

lemma get_filter: "get D arr j = foldl (join (elem_dom D)) (bottom (elem_dom D))
     (map snd (filter (overlaps D j) arr))"
  by (simp add: get_def concat_map_if overlaps_def[abs_def])

lemma foldl_join_snoc_le:
  assumes "order_laws E"
  shows "le E v (foldl (join E) b (xs @ [v]))"
  using assms by (simp add: order_laws_def)

text \<open>
  Claim C4 as stated fails on an empty index set: nothing can be read at no index, so the
  reading is bottom, which is not above a non-empty value.
\<close>

theorem get_updated_empty_index_counterexample:
  "\<not> le (elem_dom D10) (Some (5, 5))
       (get D10 (updated D10 [(Some (-10, 10), Some (0, 0))] (Some (5, 5)) None) None)"
  by (simp add: get_def updated_def updated_do_precise_def eval_defs)

text \<open>
  Claim C4, amended. For every array \<open>a\<close>, value \<open>v\<close> and index set \<open>i\<close> that is not empty (its
  meet with itself is not empty), \<open>get(updated(a, v, i), i)\<close> is above \<open>v\<close> in the element order,
  in every domain whose element order is reflexive and transitive with joins as upper
  bounds and whose array join and normalization never lose a reading.
\<close>

theorem get_updated_at_least:
  assumes ord: "order_laws (elem_dom D)" and kept: "reads_kept D"
    and ne: "\<not> is_empty (index_dom D) (meet (index_dom D) i i)"
  shows "le (elem_dom D) v (get D (updated D a v i) i)"
proof -
  let ?E = "elem_dom D"
  have trans: "\<And>x y z. le ?E x y \<Longrightarrow> le ?E y z \<Longrightarrow> le ?E x z"
    using ord unfolding order_laws_def by blast
  have last: "le ?E v (get D (xs @ [(i, v)]) i)" for xs
    using ne ord by (simp add: get_filter overlaps_def order_laws_def)
  show ?thesis
  proof (cases "size_of (index_dom D) i = Some 1 \<and> has_split (index_dom D)")
    case True
    then obtain raw where "updated D a v i = normalized D (raw @ [(i, v)])"
      by (simp add: updated_unfolded updated_spec_def del: append_assoc add: append_assoc[symmetric])
    moreover have "le ?E (get D (raw @ [(i, v)]) i) (get D (normalized D (raw @ [(i, v)])) i)"
      using kept unfolding reads_kept_def by blast
    ultimately show ?thesis using trans[OF last] by simp
  next
    case False
    then have "updated D a v i = array_join D a [(i, v)]"
      by (auto simp: updated_unfolded updated_spec_def)
    moreover have "le ?E (get D [(i, v)] i) (get D (array_join D a [(i, v)]) i)"
      using kept unfolding reads_kept_def by blast
    ultimately show ?thesis using trans[OF last[of "[]"]] by simp
  qed
qed

lemma semilattice_lawsD:
  assumes "semilattice_laws E"
  shows "join E (join E x y) z = join E x (join E y z)"
    and "join E x y = join E y x"
    and "join E x x = x"
    and "join E (bottom E) x = x"
    and "join E x (bottom E) = x"
proof -
  show "join E (join E x y) z = join E x (join E y z)" "join E x y = join E y x"
    "join E x x = x" "join E (bottom E) x = x"
    using assms unfolding semilattice_laws_def by blast+
  have "join E x (bottom E) = join E (bottom E) x"
    using assms unfolding semilattice_laws_def by blast
  also have "\<dots> = x" using assms unfolding semilattice_laws_def by blast
  finally show "join E x (bottom E) = x" .
qed

lemma foldl_join_start:
  assumes "semilattice_laws E"
  shows "foldl (join E) a xs = join E a (foldl (join E) (bottom E) xs)"
proof (induction xs arbitrary: a)
  case Nil
  show ?case by (simp add: semilattice_lawsD(5)[OF assms])
next
  case (Cons x xs)
  have "foldl (join E) a (x # xs) = join E (join E a x) (foldl (join E) (bottom E) xs)"
    using Cons.IH[of "join E a x"] by simp
  also have "\<dots> = join E a (join E x (foldl (join E) (bottom E) xs))"
    by (rule semilattice_lawsD(1)[OF assms])
  also have "join E x (foldl (join E) (bottom E) xs) = foldl (join E) (bottom E) (x # xs)"
    using Cons.IH[of x] by (simp add: semilattice_lawsD(4)[OF assms])
  finally show ?case .
qed

lemma foldl_join_Cons:
  assumes "semilattice_laws E"
  shows "foldl (join E) (bottom E) (x # xs) = join E x (foldl (join E) (bottom E) xs)"
  using foldl_join_start[OF assms, of x xs] by (simp add: semilattice_lawsD(4)[OF assms])

lemma foldl_join_absorb:
  assumes "semilattice_laws E" "x \<in> set xs"
  shows "join E x (foldl (join E) (bottom E) xs) = foldl (join E) (bottom E) xs"
  using assms(2)
proof (induction xs)
  case Nil
  then show ?case by simp
next
  case (Cons y ys)
  let ?F = "foldl (join E) (bottom E)"
  have c: "?F (y # ys) = join E y (?F ys)" by (rule foldl_join_Cons[OF assms(1)])
  show ?case
  proof (cases "x = y")
    case True
    have "join E y (join E y (?F ys)) = join E (join E y y) (?F ys)"
      by (rule semilattice_lawsD(1)[OF assms(1), symmetric])
    also have "\<dots> = join E y (?F ys)" by (simp add: semilattice_lawsD(3)[OF assms(1)])
    finally show ?thesis using True c by simp
  next
    case False
    with Cons have ih: "join E x (?F ys) = ?F ys" by simp
    have "join E x (join E y (?F ys)) = join E (join E x y) (?F ys)"
      by (rule semilattice_lawsD(1)[OF assms(1), symmetric])
    also have "\<dots> = join E (join E y x) (?F ys)"
      by (simp add: semilattice_lawsD(2)[OF assms(1), of x y])
    also have "\<dots> = join E y (join E x (?F ys))"
      by (rule semilattice_lawsD(1)[OF assms(1)])
    finally show ?thesis using ih c by simp
  qed
qed

lemma foldl_join_subset:
  assumes "semilattice_laws E" "set xs \<subseteq> set ys"
  shows "join E (foldl (join E) (bottom E) xs) (foldl (join E) (bottom E) ys)
           = foldl (join E) (bottom E) ys"
  using assms(2)
proof (induction xs)
  case Nil
  then show ?case by (simp add: semilattice_lawsD(4)[OF assms(1)])
next
  case (Cons x xs)
  let ?F = "foldl (join E) (bottom E)"
  from Cons have ih: "join E (?F xs) (?F ys) = ?F ys" and x: "x \<in> set ys" by auto
  have "join E (?F (x # xs)) (?F ys) = join E (join E x (?F xs)) (?F ys)"
    by (simp only: foldl_join_Cons[OF assms(1)])
  also have "\<dots> = join E x (join E (?F xs) (?F ys))"
    by (rule semilattice_lawsD(1)[OF assms(1)])
  also have "\<dots> = ?F ys" using ih foldl_join_absorb[OF assms(1) x] by simp
  finally show ?case .
qed

lemma foldl_join_set_eq:
  assumes "semilattice_laws E" "set xs = set ys"
  shows "foldl (join E) (bottom E) xs = foldl (join E) (bottom E) ys"
proof -
  let ?F = "foldl (join E) (bottom E)"
  have "join E (?F xs) (?F ys) = ?F ys" "join E (?F ys) (?F xs) = ?F xs"
    using foldl_join_subset[OF assms(1)] assms(2) by auto
  moreover have "join E (?F xs) (?F ys) = join E (?F ys) (?F xs)"
    by (rule semilattice_lawsD(2)[OF assms(1)])
  ultimately show ?thesis by simp
qed

lemma get_set_eq:
  assumes "semilattice_laws (elem_dom D)"
    and "snd ` {x \<in> set a. overlaps D j x} = snd ` {x \<in> set b. overlaps D j x}"
  shows "get D a j = get D b j"
  unfolding get_filter using assms(2) by (intro foldl_join_set_eq[OF assms(1)]) simp



subsection \<open>The interval instance obeys the laws\<close>

lemma interval_join_assoc: "interval_join (interval_join x y) z = interval_join x (interval_join y z)"
  by (cases x; cases y; cases z) auto

lemma interval_join_commute: "interval_join x y = interval_join y x"
  by (cases x; cases y) auto

lemma interval_join_idem: "interval_join x x = x"
  by (cases x) auto

lemma interval_le_refl: "interval_le x x"
  by (cases x) auto

lemma interval_le_trans: "interval_le x y \<Longrightarrow> interval_le y z \<Longrightarrow> interval_le x z"
  by (cases x; cases y; cases z) auto

lemma interval_le_join: "interval_le x (interval_join x y)" "interval_le y (interval_join x y)"
  by (cases x; cases y; auto)+

lemma Intervals_semilattice: "semilattice_laws (Intervals lo hi)"
  unfolding semilattice_laws_def
  by (simp add: Intervals_def interval_join_assoc interval_join_idem)
     (metis interval_join_commute)

lemma Intervals_order: "order_laws (Intervals lo hi)"
  unfolding order_laws_def
  by (simp add: Intervals_def interval_le_refl interval_le_join)
     (metis interval_le_trans)

lemma interval_meet_commute: "interval_meet x y = interval_meet y x"
  by (cases x; cases y) (auto simp: max.commute min.commute)

lemma interval_meet_None [simp]: "interval_meet j None = None"
  by (cases j) auto

lemma interval_split_cover:
  assumes "interval_meet j y = None"
  shows "(\<exists>p \<in> set (interval_split x y). p \<noteq> None \<and> interval_meet j p \<noteq> None)
           = (interval_meet j x \<noteq> None)"
proof (cases j)
  case None
  then show ?thesis by simp
next
  case (Some uw)
  obtain u w where uw: "uw = (u, w)" by (cases uw)
  show ?thesis
  proof (cases x)
    case None
    then show ?thesis by simp
  next
    case sx: (Some ab)
    obtain a b where ab: "ab = (a, b)" by (cases ab)
    show ?thesis
    proof (cases y)
      case None
      with Some sx show ?thesis by auto
    next
      case sy: (Some cd)
      obtain c d where cd: "cd = (c, d)" by (cases cd)
      from assms Some uw sy cd have "\<not> max u c \<le> min w d"
        by (simp add: mk_interval_def split: if_splits)
      with Some uw sx ab sy cd show ?thesis
        by (auto simp: mk_interval_def)
    qed
  qed
qed

lemma Intervals_split_covers: "split_covers (Intervals lo hi)"
  unfolding split_covers_def
  using interval_split_cover
  by (simp add: Intervals_def) (metis interval_meet_commute)


lemma meet_merged:
  assumes "a \<le> c" "c \<le> b + 1"
  shows "(interval_meet j (Some (a, max b d)) \<noteq> None)
           = (interval_meet j (Some (a, b)) \<noteq> None \<or> interval_meet j (Some (c, d)) \<noteq> None)"
proof (cases j)
  case None
  then show ?thesis by simp
next
  case (Some uw)
  obtain u w where "uw = (u, w)" by (cases uw)
  with Some assms show ?thesis by (auto simp: mk_interval_def)
qed


lemma readings_Nil [simp]: "readings D j [] = {}"
  by (simp add: readings_def)

lemma readings_Cons [simp]:
  "readings D j (x # xs) =
     (if overlaps D j x then insert (snd x) (readings D j xs) else readings D j xs)"
  by (auto simp: readings_def)

lemma overlaps_Intervals:
  "overlaps (SparseArray (Intervals lo hi) E n) j x = (interval_meet j (fst x) \<noteq> None)"
  by (simp add: overlaps_def SparseArray_def Intervals_def)

lemma merge_adjacent_readings:
  "readings (SparseArray (Intervals lo hi) E n) j (merge_adjacent xs)
     = readings (SparseArray (Intervals lo hi) E n) j xs"
proof (induction xs rule: merge_adjacent.induct)
  case (1 a b e c d f rest)
  show ?case
  proof (cases "e = f \<and> a \<le> c \<and> c \<le> b + 1")
    case True
    then have m: "(interval_meet j (Some (a, max b d)) \<noteq> None)
        = (interval_meet j (Some (a, b)) \<noteq> None \<or> interval_meet j (Some (c, d)) \<noteq> None)"
      by (intro meet_merged) simp_all
    have "readings (SparseArray (Intervals lo hi) E n) j
            (merge_adjacent ((Some (a, b), e) # (Some (c, d), f) # rest))
        = readings (SparseArray (Intervals lo hi) E n) j ((Some (a, max b d), e) # rest)"
      using True "1.IH"(1) by simp
    also have "\<dots> = readings (SparseArray (Intervals lo hi) E n) j
            ((Some (a, b), e) # (Some (c, d), f) # rest)"
      using True m by (simp add: overlaps_Intervals)
    finally show ?thesis .
  next
    case False
    have "merge_adjacent ((Some (a, b), e) # (Some (c, d), f) # rest)
        = (Some (a, b), e) # merge_adjacent ((Some (c, d), f) # rest)"
      by (simp only: merge_adjacent.simps(1) if_not_P[OF False])
    then show ?thesis using "1.IH"(2)[OF False] by (simp only: readings_Cons)
  qed
qed simp_all


lemma get_readings:
  assumes "semilattice_laws (elem_dom D)" and "readings D j a = readings D j b"
  shows "get D a j = get D b j"
  using assms(2) unfolding readings_def by (rule get_set_eq[OF assms(1)])

lemma readings_filter_nonempty:
  "readings (SparseArray (Intervals lo hi) E n) j [ie \<leftarrow> arr. fst ie \<noteq> None]
     = readings (SparseArray (Intervals lo hi) E n) j arr"
proof -
  have "overlaps (SparseArray (Intervals lo hi) E n) j x \<Longrightarrow> fst x \<noteq> None" for x
    by (cases "fst x") (simp_all add: overlaps_Intervals)
  then have "{x \<in> set [ie \<leftarrow> arr. fst ie \<noteq> None]. overlaps (SparseArray (Intervals lo hi) E n) j x}
      = {x \<in> set arr. overlaps (SparseArray (Intervals lo hi) E n) j x}"
    by auto
  then show ?thesis by (simp only: readings_def)
qed

lemma readings_set:
  "set a = set b \<Longrightarrow> readings D j a = readings D j b"
  by (simp add: readings_def)

lemma unbounded_normalized_readings:
  assumes "semilattice_laws E"
  shows "get (SparseArray (Intervals lo hi) E 0)
             (interval_normalized (Intervals lo hi) E 0 arr) j
           = get (SparseArray (Intervals lo hi) E 0) arr j"
proof -
  let ?D = "SparseArray (Intervals lo hi) E 0"
  let ?kept = "[ie \<leftarrow> arr. fst ie \<noteq> None]"
  have "readings ?D j (interval_normalized (Intervals lo hi) E 0 arr)
      = readings ?D j (sort_key (\<lambda>ie. lower (fst ie)) ?kept)"
    by (simp add: interval_normalized_def enforce_max_elems_def merge_adjacent_readings)
  also have "\<dots> = readings ?D j ?kept"
    by (rule readings_set) simp
  also have "\<dots> = readings ?D j arr"
    by (rule readings_filter_nonempty)
  finally show ?thesis
    using assms by (intro get_readings) (simp_all add: SparseArray_def)
qed

lemma unbounded_reads_exact:
  assumes "semilattice_laws E"
  shows "reads_exact (SparseArray (Intervals lo hi) E 0)"
proof -
  let ?D = "SparseArray (Intervals lo hi) E 0"
  have E: "elem_dom ?D = E" by (simp add: SparseArray_def)
  have n: "normalized ?D = interval_normalized (Intervals lo hi) E 0"
    and j: "array_join ?D a b = interval_normalized (Intervals lo hi) E 0 (a @ b)" for a b
    by (simp_all add: SparseArray_def)
  have app: "get ?D (a @ b) k = join E (get ?D a k) (get ?D b k)" for a b k
  proof -
    let ?A = "map snd (filter (overlaps ?D k) a)" and ?B = "map snd (filter (overlaps ?D k) b)"
    have "get ?D (a @ b) k = foldl (join E) (foldl (join E) (bottom E) ?A) ?B"
      by (simp add: get_filter E)
    also have "\<dots> = join E (foldl (join E) (bottom E) ?A) (foldl (join E) (bottom E) ?B)"
      by (rule foldl_join_start[OF assms])
    finally show ?thesis by (simp add: get_filter E)
  qed
  show ?thesis
    unfolding reads_exact_def n j E
    using unbounded_normalized_readings[OF assms] app by (simp add: E)
qed

lemma reads_exact_kept:
  assumes "reads_exact D" "order_laws (elem_dom D)"
  shows "reads_kept D"
  using assms unfolding reads_exact_def reads_kept_def order_laws_def by simp

lemma D10_unbounded_laws:
  "order_laws (elem_dom D10_unbounded)" "semilattice_laws (elem_dom D10_unbounded)"
  "split_covers (index_dom D10_unbounded)" "reads_exact D10_unbounded"
  "reads_kept D10_unbounded"
proof -
  show o: "order_laws (elem_dom D10_unbounded)"
    by (simp add: D10_unbounded_def SparseArray_def Intervals_order)
  show "semilattice_laws (elem_dom D10_unbounded)"
    by (simp add: D10_unbounded_def SparseArray_def Intervals_semilattice)
  show "split_covers (index_dom D10_unbounded)"
    by (simp add: D10_unbounded_def SparseArray_def Intervals_split_covers)
  show e: "reads_exact D10_unbounded"
    unfolding D10_unbounded_def by (rule unbounded_reads_exact) (rule Intervals_semilattice)
  show "reads_kept D10_unbounded" using e o by (rule reads_exact_kept)
qed

lemmas eval_more = D10_unbounded_def D10_single_def

subsection \<open>The two properties on the interval instance\<close>

theorem get_updated_at_least_witness:
  "\<not> is_empty (index_dom D10_unbounded)
       (meet (index_dom D10_unbounded) (Some (3, 3)) (Some (3, 3))) \<and>
   le (elem_dom D10_unbounded) (Some (5, 5))
      (get D10_unbounded
         (updated D10_unbounded [(Some (-10, 10), Some (0, 0))] (Some (5, 5)) (Some (3, 3)))
         (Some (3, 3)))"
proof -
  have ne: "\<not> is_empty (index_dom D10_unbounded)
       (meet (index_dom D10_unbounded) (Some (3, 3)) (Some (3, 3)))"
    by (simp add: D10_unbounded_def SparseArray_def Intervals_def mk_interval_def)
  from get_updated_at_least [OF D10_unbounded_laws(1) D10_unbounded_laws(5) ne] ne
  show ?thesis by blast
qed

section \<open>Signatures: \<open>substituted\<close>\<close>

text \<open>
  What \<open>substituted\<close> does: it is the copy that the specification describes, with the user
  data reset.
\<close>

lemma substituted_other_fields:
  "substituted s d d' = (substituted_spec s d d') \<lparr> userdata := None \<rparr>"
  by (auto simp: substituted_def substituted_spec_def)

lemma substituted_absent:
  assumes "\<not> contains s d"
  shows "substituted s d d' = s \<lparr> userdata := None \<rparr>"
proof -
  have "map (\<lambda>dom. if dom = d then d' else dom) xs = xs" if "d \<notin> set xs" for xs
    using that by (induction xs) auto
  with assms show ?thesis by (simp add: substituted_def contains_def)
qed

text \<open>
  Claim C6 on a signature that carries user data: the domain 0 is replaced by 1 among the
  inputs and as the output, the name and the out-parameter indices are kept, and the user
  data is lost, so the result is not equal (all five fields) to the copy of the claim.
\<close>

theorem substituted_drops_userdata:
  "substituted \<lparr> name = ''f'', input_domains = [0::nat, 2], output_domain = Some 0,
                  out_param_indices = Some [], userdata = Some ''u'' \<rparr> 0 1
     = \<lparr> name = ''f'', input_domains = [1, 2], output_domain = Some 1,
         out_param_indices = Some [], userdata = None \<rparr> \<and>
   \<not> signature_eq
       (substituted \<lparr> name = ''f'', input_domains = [0::nat, 2], output_domain = Some 0,
                      out_param_indices = Some [], userdata = Some ''u'' \<rparr> 0 1)
       \<lparr> name = ''f'', input_domains = [1, 2], output_domain = Some 1,
         out_param_indices = Some [], userdata = Some ''u'' \<rparr>"
  by (simp add: substituted_def signature_eq_def)

section \<open>Random-access memory: \<open>eq\<close> and \<open>neq\<close>\<close>

text \<open>
  Claim C9. The provider of the random-access memory knows the signatures of \<open>eq\<close> and
  \<open>neq\<close> over the memory domain: the signature named \<open>EQ\<close> (or \<open>NEQ\<close>) that takes two
  random-access memories and returns a boolean, with no out parameter and no user data.
  The forward and backward implementations it returns for each of them are both
  \<open>not_implemented\<close>, which applied to any arguments raises \<open>NotImplementedError\<close>: it computes
  no result (neither a refinement nor the "no solution" value of a backward operation).
  A signature named \<open>EQ\<close> or \<open>NEQ\<close> with any other field is not known to the provider.
\<close>

theorem ram_eq_neq_not_implemented:
  "ram_provider R
     \<lparr> name = EQ, input_domains = [RandomAccessMemory, RandomAccessMemory],
       output_domain = Some Boolean, out_param_indices = Some [], userdata = None \<rparr>
     = Inr (Some (not_implemented, not_implemented)) \<and>
   ram_provider R
     \<lparr> name = NEQ, input_domains = [RandomAccessMemory, RandomAccessMemory],
       output_domain = Some Boolean, out_param_indices = Some [], userdata = None \<rparr>
     = Inr (Some (not_implemented, not_implemented)) \<and>
   not_implemented args = Inl NotImplementedError \<and>
   ram_provider R
     \<lparr> name = EQ, input_domains = ins, output_domain = out,
       out_param_indices = outs, userdata = ud \<rparr>
     = (if ins = [RandomAccessMemory, RandomAccessMemory] \<and> out = Some Boolean
           \<and> outs = Some [] \<and> ud = None
        then Inr (Some (not_implemented, not_implemented)) else Inr None) \<and>
   ram_provider R
     \<lparr> name = NEQ, input_domains = ins, output_domain = out,
       out_param_indices = outs, userdata = ud \<rparr>
     = (if ins = [RandomAccessMemory, RandomAccessMemory] \<and> out = Some Boolean
           \<and> outs = Some [] \<and> ud = None
        then Inr (Some (not_implemented, not_implemented)) else Inr None)"
  by (simp add: ram_provider_def bin_rel_signer_def signer_def signature_eq_def
      cpy_offset_sig_def not_implemented_def mem_dom_def)
section \<open>IR generation: failures of declarations and statements\<close>

lemma transform_each_isolated:
  "fails_recoverably transform nodes \<Longrightarrow>
   transform_each transform text nodes res (st, out) =
     (case isolated transform text nodes st of
        (stmts, warnings, st') \<Rightarrow> (Inr (res @ stmts), (st', out @ warnings)))"
proof (induction nodes arbitrary: res st out)
  case Nil
  then show ?case by simp
next
  case (Cons node nodes)
  then have rest: "fails_recoverably transform nodes"
    and here: "\<And>e st. fst (transform node st) = Inl e \<Longrightarrow> recoverable e"
    by (auto simp: fails_recoverably_def)
  obtain r st' where t: "transform node st = (r, st')" by (cases "transform node st")
  show ?case
  proof (cases r)
    case (Inl e)
    with here[of st e] t have "recoverable e" by simp
    with Inl t Cons.IH[OF rest] show ?thesis
      by (simp add: print_warning_def split: prod.splits)
  next
    case (Inr stmts)
    with t Cons.IH[OF rest] show ?thesis by (simp split: prod.splits)
  qed
qed

text \<open>
  Claim C8 as stated fails: the node whose transformation fails is not replaced by a
  placeholder, it is left out. Declaration 1 and statement 1 fail with recoverable errors;
  the program holds the statements of the specification, of the declarations 0 and 2 and
  the end label, and nothing for the two nodes that failed, each of which printed a
  warning.
\<close>

theorem gen_ir_drops_failed_counterexample:
  "gen_ir_program F0 0 [0, 1, 2] [1] (0, [])
     = (Inr (Program [''param'', ''read'', ''read'', ''end'']),
        (2, [Warning ''X : T'' NotImplementedError, Warning ''Y := Z'' KeyError]))"
  by (simp add: gen_ir_program_def transform_decls_def transform_stmts_def F0_def
      recoverable_def print_warning_def)

text \<open>
  Claim C8, amended. When the specification of the subprogram is transformed and every
  failure of a declaration or a statement is a recoverable error (\<open>PropertyError\<close>,
  \<open>NotImplementedError\<close>, \<open>KeyError\<close>, \<open>NotConstExprError\<close>), IR generation returns a program:
  the statements of the specification, then those of the declarations, then those of the
  statements, then the end label, where every node that fails contributes no statement and
  one warning, and every other node contributes the statements of its transformation.
\<close>

theorem gen_ir_isolates_failures:
  assumes "transform_spec F spec st = (Inr spec_stmts, st1)"
    and "fails_recoverably (transform_decl F) decls"
    and "fails_recoverably (transform_stmt F) stmts"
    and "isolated (transform_decl F) (decl_text F) decls st1 = (decl_stmts, decl_warnings, st2)"
    and "isolated (transform_stmt F) (stmt_text F) stmts st2 = (body_stmts, stmt_warnings, st3)"
  shows "gen_ir_program F spec decls stmts (st, out) =
     (Inr (Program (spec_stmts @ decl_stmts @ body_stmts @ [func_end_label F])),
      (st3, out @ decl_warnings @ stmt_warnings))"
  using assms
  by (simp add: gen_ir_program_def transform_decls_def transform_stmts_def
      transform_each_isolated)

theorem gen_ir_isolates_failures_witness:
  "gen_ir_program F0 0 [0, 1] [1, 0] (0, [])
     = (Inr (Program [''param'', ''read'', ''assign'', ''end'']),
        (1, [Warning ''X : T'' NotImplementedError, Warning ''Y := Z'' KeyError]))"
proof -
  have a: "transform_spec F0 0 0 = (Inr [''param''], 0)" by (simp add: F0_def)
  have b: "fails_recoverably (transform_decl F0) [0, 1]"
    by (simp add: fails_recoverably_def F0_def recoverable_def)
  have c: "fails_recoverably (transform_stmt F0) [1, 0]"
    by (simp add: fails_recoverably_def F0_def recoverable_def)
  have d: "isolated (transform_decl F0) (decl_text F0) [0, 1] 0
      = ([''read''], [Warning ''X : T'' NotImplementedError], 1)"
    by (simp add: F0_def)
  have e: "isolated (transform_stmt F0) (stmt_text F0) [1, 0] 1
      = ([''assign''], [Warning ''Y := Z'' KeyError], 1)"
    by (simp add: F0_def)
  show ?thesis using gen_ir_isolates_failures [OF a b c d e, of "[]"] by (simp add: F0_def)
qed

section \<open>The universal-type rewrite removes the universal types\<close>

subsection \<open>The memory evolves\<close>

lemma with_args_id [simp]: "with_args n (args_of n) = n"
  by (cases n) simp_all

lemma with_type_hint_id [simp]: "with_type_hint n (type_hint n) = n"
  by (cases n) simp_all

lemma type_hint_with [simp]:
  "type_hint (with_type_hint n t) = t" "type_hint (with_args n as) = type_hint n"
  "args_of (with_type_hint n t) = args_of n"
  by (cases n; simp)+

lemma with_with [simp]:
  "with_args (with_args n as) bs = with_args n bs"
  "with_type_hint (with_type_hint n s) t = with_type_hint n t"
  "with_args (with_type_hint n t) as = with_type_hint (with_args n as) t"
  by (cases n; simp)+

lemma args_of_with_args: "length (args_of (with_args n as)) = length (args_of n) \<Longrightarrow> length as = length (args_of n) \<Longrightarrow> args_of (with_args n as) = as"
  by (cases n) simp_all

lemma hint_ev_refl [simp]: "hint_ev EV h h" by (simp add: hint_ev_def)



lemma hint_ev_universal: "hint_ev EV h h' \<Longrightarrow> is_universal EV h' \<Longrightarrow> h' = h"
  by (auto simp: hint_ev_def)

lemma node_ev_refl [simp]: "node_ev EV b hi n n"
  by (simp add: node_ev_def)

lemma node_ev_mono: "node_ev EV b hi n n' \<Longrightarrow> hi \<le> hi' \<Longrightarrow> node_ev EV b hi' n n'"
  unfolding node_ev_def by (metis (no_types, lifting) less_le_trans)

lemma node_ev_lit: "node_ev EV b hi n n' \<Longrightarrow> fresh_lit EV n \<Longrightarrow> fresh_lit EV n'"
  unfolding node_ev_def fresh_lit_def by (cases n; cases n'; auto simp: hint_ev_def)


















lemma fresh_lit_with_args [simp]: "fresh_lit EV (with_args n as) = fresh_lit EV n"
  by (cases n) (simp_all add: fresh_lit_def)

lemma with_type_hint_args_id [simp]:
  "with_type_hint (with_args n as) (type_hint n) = with_args n as"
  by (cases n) simp_all






lemma node_at_visit_ident [simp]: "node_at (visit_ident EV x ts M) = node_at M"
  "allocated (visit_ident EV x ts M) = allocated M"
  by (simp_all add: visit_ident_def)





subsection \<open>The loop over the arguments\<close>







subsection \<open>The pass completes\<close>






subsection \<open>The type of an argument\<close>








lemmas rewrite_defs = visit_assume_def visit_assign_def try_convert_expr.simps visit.simps
  convert_args.simps next_arg_def store_arg_def new_node_def set_hint_def set_args_def set_arg_def
  hint_at_def pick_type_def is_compatible_def compatible_type_def is_integer_type_def
  has_universal_type_def is_universal_def visit_ident_def EV0_def typer0_def M0_def






subsection \<open>The claim\<close>


text \<open>
  One node at two places of a call keeps the type that its first visit gave it: in
  \<open>f(n, n)\<close> with parameters of types \<open>Integer\<close> and \<open>Float\<close>, both arguments are the node \<open>n\<close>,
  of type \<open>Integer\<close> after the visit.
\<close>

lemma shared_argument_scenario:
  "\<exists>M'. visit EV0 typer0 1 1 Integer M0 = Inr M' \<and> node_at M' 1 = FunCall ''f'' [0, 0] Integer (Some [Integer, Float])
      \<and> hint_at M' 0 = Integer"
  by (simp add: rewrite_defs)



end
